theory Spec2Isabelle
  imports Complex_Main "HOL-Library.Word"
begin

section \<open>The plan registry of \<open>PricingManagement.jsx\<close>\<close>

text \<open>
  The component keeps three pieces of React state: \<open>plans\<close> (an array of plan objects),
  \<open>editingPlan\<close> (a plan object or \<open>null\<close>) and \<open>showAddPlan\<close> (a boolean). Each handler
  reads the state of the current render and calls the setters; the model passes the state
  explicitly and returns the state of the next render.
\<close>

subsection \<open>Values\<close>

text \<open>
  A JavaScript string is a sequence of UTF-16 code units. The literals of the source are
  Arabic text, written here unit by unit.
\<close>

type_synonym jsstring = "16 word list"

text \<open>
  A price is a JavaScript number. No handler computes with prices, so a number is the
  decimal value its literal denotes (the rounding to binary64 is not modelled), or \<open>NaN\<close>,
  which \<open>parseFloat\<close> returns for an input that is not numeric.
\<close>

datatype jsnumber = Num real | NaN

text \<open>The \<open>icon\<close> field holds one of three imported components.\<close>

datatype icon = Star | Crown | Gem

text \<open>
  A plan object, with the fields of the literals at lines 57 to 95. The identifiers of the
  source are the integers 1, 2 and 3, and \<open>===\<close> on them is equality of integers. The field
  \<open>id\<close> is written \<open>id'\<close>.
\<close>

record plan =
  id' :: int
  name :: jsstring
  description :: jsstring
  monthlyPrice :: jsnumber
  yearlyPrice :: jsnumber
  features :: "jsstring list"
  maxApps :: int
  isActive :: bool
  subscribers :: int
  icon :: icon
  color :: jsstring

record state =
  plans :: "plan list"
  editingPlan :: "plan option"
  showAddPlan :: bool

text \<open>The only error a handler can raise: reading a property of \<open>null\<close>.\<close>

datatype error = TypeError

subsection \<open>The initial state (lines 56 to 100)\<close>

definition plan1 :: plan where
  "plan1 = \<lparr> id' = 1,
     name = [0x627, 0x644, 0x62E, 0x637, 0x629, 0x20, 0x627, 0x644, 0x623, 0x633, 0x627,
             0x633, 0x64A, 0x629],
     description = [0x645, 0x62B, 0x627, 0x644, 0x64A, 0x629, 0x20, 0x644, 0x644, 0x623,
             0x641, 0x631, 0x627, 0x62F, 0x20, 0x648, 0x627, 0x644, 0x634, 0x631, 0x643,
             0x627, 0x62A, 0x20, 0x627, 0x644, 0x635, 0x63A, 0x64A, 0x631, 0x629],
     monthlyPrice = Num 19.99,
     yearlyPrice = Num 16.99,
     features =
       [[0x62A, 0x637, 0x628, 0x64A, 0x642, 0x20, 0x62F, 0x631, 0x62F, 0x634, 0x629, 0x20,
         0x648, 0x627, 0x62D, 0x62F],
        [0x62A, 0x62E, 0x635, 0x64A, 0x635, 0x20, 0x623, 0x633, 0x627, 0x633, 0x64A],
        [0x62F, 0x639, 0x645, 0x20, 0x639, 0x628, 0x631, 0x20, 0x627, 0x644, 0x628, 0x631,
         0x64A, 0x62F, 0x20, 0x627, 0x644, 0x625, 0x644, 0x643, 0x62A, 0x631, 0x648, 0x646,
         0x64A]],
     maxApps = 1,
     isActive = True,
     subscribers = 1250,
     icon = Star,
     color = [0x62, 0x6C, 0x75, 0x65] \<rparr>"

definition plan2 :: plan where
  "plan2 = \<lparr> id' = 2,
     name = [0x627, 0x644, 0x62E, 0x637, 0x629, 0x20, 0x627, 0x644, 0x627, 0x62D, 0x62A,
             0x631, 0x627, 0x641, 0x64A, 0x629],
     description = [0x645, 0x62B, 0x627, 0x644, 0x64A, 0x629, 0x20, 0x644, 0x644, 0x634,
             0x631, 0x643, 0x627, 0x62A, 0x20, 0x627, 0x644, 0x646, 0x627, 0x645, 0x64A,
             0x629],
     monthlyPrice = Num 29.99,
     yearlyPrice = Num 24.99,
     features =
       [[0x35, 0x20, 0x62A, 0x637, 0x628, 0x64A, 0x642, 0x627, 0x62A, 0x20, 0x62F, 0x631,
         0x62F, 0x634, 0x629],
        [0x62A, 0x62E, 0x635, 0x64A, 0x635, 0x20, 0x645, 0x62A, 0x642, 0x62F, 0x645],
        [0x62F, 0x639, 0x645, 0x20, 0x630, 0x648, 0x20, 0x623, 0x648, 0x644, 0x648, 0x64A,
         0x629],
        [0x644, 0x648, 0x62D, 0x629, 0x20, 0x62A, 0x62D, 0x643, 0x645, 0x20, 0x644, 0x644,
         0x62A, 0x62D, 0x644, 0x64A, 0x644, 0x627, 0x62A]],
     maxApps = 5,
     isActive = True,
     subscribers = 850,
     icon = Crown,
     color = [0x70, 0x75, 0x72, 0x70, 0x6C, 0x65] \<rparr>"

definition plan3 :: plan where
  "plan3 = \<lparr> id' = 3,
     name = [0x627, 0x644, 0x62E, 0x637, 0x629, 0x20, 0x627, 0x644, 0x645, 0x627, 0x633,
             0x64A, 0x629],
     description = [0x644, 0x644, 0x634, 0x631, 0x643, 0x627, 0x62A, 0x20, 0x627, 0x644,
             0x643, 0x628, 0x64A, 0x631, 0x629, 0x20, 0x648, 0x627, 0x644, 0x645, 0x633,
             0x62A, 0x62E, 0x62F, 0x645, 0x64A, 0x646, 0x20, 0x627, 0x644, 0x645, 0x62A,
             0x642, 0x62F, 0x645, 0x64A, 0x646],
     monthlyPrice = Num 36.99,
     yearlyPrice = Num 33.99,
     features =
       [[0x62A, 0x637, 0x628, 0x64A, 0x642, 0x627, 0x62A, 0x20, 0x63A, 0x64A, 0x631, 0x20,
         0x645, 0x62D, 0x62F, 0x648, 0x62F, 0x629],
        [0x62A, 0x62E, 0x635, 0x64A, 0x635, 0x20, 0x643, 0x627, 0x645, 0x644],
        [0x62F, 0x639, 0x645, 0x20, 0x32, 0x34, 0x2F, 0x37],
        [0x62A, 0x62D, 0x644, 0x64A, 0x644, 0x627, 0x62A, 0x20, 0x645, 0x62A, 0x642, 0x62F,
         0x645, 0x629],
        [0x639, 0x644, 0x627, 0x645, 0x629, 0x20, 0x628, 0x64A, 0x636, 0x627, 0x621]],
     maxApps = - 1,
     isActive = True,
     subscribers = 250,
     icon = Gem,
     color = [0x61, 0x6D, 0x62, 0x65, 0x72] \<rparr>"

definition initial_state :: state where
  "initial_state = \<lparr> plans = [plan1, plan2, plan3], editingPlan = None, showAddPlan = False \<rparr>"

subsection \<open>Array methods\<close>

text \<open>
  \<open>Array.prototype.map\<close> calls the callback on the elements from left to right. A callback
  that throws ends the call, and no array is produced. On an empty array the callback is
  never called.
\<close>

fun array_map :: "('a \<Rightarrow> error + 'b) \<Rightarrow> 'a list \<Rightarrow> error + 'b list" where
  "array_map f [] = Inr []"
| "array_map f (x # xs) =
     (case f x of
        Inl err \<Rightarrow> Inl err
      | Inr y \<Rightarrow> (case array_map f xs of Inl err \<Rightarrow> Inl err | Inr ys \<Rightarrow> Inr (y # ys)))"

text \<open>
  \<open>Array.prototype.filter\<close> with a callback that also reads the index: the second argument
  of the callback counts the elements from \<open>k\<close> on.
\<close>

fun array_filter :: "('a \<Rightarrow> nat \<Rightarrow> bool) \<Rightarrow> nat \<Rightarrow> 'a list \<Rightarrow> 'a list" where
  "array_filter f k [] = []"
| "array_filter f k (x # xs) =
     (if f x k then x # array_filter f (Suc k) xs else array_filter f (Suc k) xs)"

subsection \<open>The handlers (lines 106 to 175)\<close>

text \<open>
  \<open>handleEditPlan(plan)\<close>: the working copy is a shallow clone of the argument, which the
  user interface takes from the registry. The clone shares its \<open>features\<close> array with the
  argument; no handler changes an array or an object in place (each builds a new one), so
  the sharing cannot be observed and the clone is a value.
\<close>

definition handleEditPlan :: "plan \<Rightarrow> state \<Rightarrow> state" where
  "handleEditPlan p s = s\<lparr>editingPlan := Some p\<rparr>"

text \<open>
  The callback of \<open>handleSavePlan\<close>, \<open>plan => plan.id === editingPlan.id ? editingPlan : plan\<close>:
  with \<open>editingPlan\<close> null, reading \<open>editingPlan.id\<close> throws.
\<close>

definition save_callback :: "plan option \<Rightarrow> plan \<Rightarrow> error + plan" where
  "save_callback ep p =
     (case ep of
        None \<Rightarrow> Inl TypeError
      | Some e \<Rightarrow> Inr (if id' p = id' e then e else p))"

text \<open>
  \<open>handleSavePlan()\<close>: the argument of \<open>setPlans\<close> is evaluated first, so an error in the
  callback leaves both setters uncalled.
\<close>

definition handleSavePlan :: "state \<Rightarrow> error + state" where
  "handleSavePlan s =
     (case array_map (save_callback (editingPlan s)) (plans s) of
        Inl err \<Rightarrow> Inl err
      | Inr ps \<Rightarrow> Inr (s\<lparr>plans := ps, editingPlan := None\<rparr>))"

definition handleCancelEdit :: "state \<Rightarrow> state" where
  "handleCancelEdit s = s\<lparr>editingPlan := None\<rparr>"

text \<open>
  \<open>handleDeletePlan(planId)\<close>: \<open>confirmed\<close> is the answer of \<open>window.confirm\<close>.
\<close>

definition handleDeletePlan :: "bool \<Rightarrow> int \<Rightarrow> state \<Rightarrow> state" where
  "handleDeletePlan confirmed planId s =
     (if confirmed then s\<lparr>plans := filter (\<lambda>p. id' p \<noteq> planId) (plans s)\<rparr> else s)"

definition handleTogglePlan :: "int \<Rightarrow> state \<Rightarrow> state" where
  "handleTogglePlan planId s =
     s\<lparr>plans := map (\<lambda>p. if id' p = planId then p\<lparr>isActive := \<not> isActive p\<rparr> else p) (plans s)\<rparr>"

definition addFeature :: "int \<Rightarrow> jsstring \<Rightarrow> state \<Rightarrow> state" where
  "addFeature planId feature s =
     (case editingPlan s of
        None \<Rightarrow> s
      | Some e \<Rightarrow>
          if id' e = planId
          then s\<lparr>editingPlan := Some (e\<lparr>features := features e @ [feature]\<rparr>)\<rparr>
          else s)"

text \<open>
  \<open>removeFeature(planId, featureIndex)\<close>: the filter keeps the features whose index is not
  \<open>featureIndex\<close>. The indices of the array are naturals; the argument is any integer.
\<close>

definition removeFeature :: "int \<Rightarrow> int \<Rightarrow> state \<Rightarrow> state" where
  "removeFeature planId featureIndex s =
     (case editingPlan s of
        None \<Rightarrow> s
      | Some e \<Rightarrow>
          if id' e = planId
          then s\<lparr>editingPlan :=
                 Some (e\<lparr>features :=
                   array_filter (\<lambda>_ index. int index \<noteq> featureIndex) 0 (features e)\<rparr>)\<rparr>
          else s)"

subsection \<open>Events\<close>

text \<open>
  One event is one call of a handler from the user interface. A handler that returns
  normally gives the next state; a handler that throws gives the error, and the state
  stays as it was, since no setter has run.
\<close>

datatype event =
    EditPlan plan
  | SavePlan
  | CancelEdit
  | DeletePlan bool int
  | TogglePlan int
  | AddFeature int jsstring
  | RemoveFeature int int

fun step :: "event \<Rightarrow> state \<Rightarrow> error + state" where
  "step (EditPlan p) s = Inr (handleEditPlan p s)"
| "step SavePlan s = handleSavePlan s"
| "step CancelEdit s = Inr (handleCancelEdit s)"
| "step (DeletePlan confirmed planId) s = Inr (handleDeletePlan confirmed planId s)"
| "step (TogglePlan planId) s = Inr (handleTogglePlan planId s)"
| "step (AddFeature planId feature) s = Inr (addFeature planId feature s)"
| "step (RemoveFeature planId featureIndex) s = Inr (removeFeature planId featureIndex s)"

definition dispatch :: "state \<Rightarrow> event \<Rightarrow> state" where
  "dispatch s ev = (case step ev s of Inl err \<Rightarrow> s | Inr s' \<Rightarrow> s')"

fun run :: "state \<Rightarrow> event list \<Rightarrow> state" where
  "run s [] = s"
| "run s (ev # evs) = run (dispatch s ev) evs"

subsection \<open>Example states\<close>

text \<open>
  A registry that holds only the first plan, the empty registry (what is left after every
  plan has been deleted), a working copy with an empty name and a negative monthly
  price, and a working copy with the two features \<open>"A"\<close> and \<open>"B"\<close>.
\<close>

definition registry_one :: state where
  "registry_one = \<lparr> plans = [plan1], editingPlan = None, showAddPlan = False \<rparr>"

definition registry_empty :: state where
  "registry_empty = \<lparr> plans = [], editingPlan = None, showAddPlan = False \<rparr>"

definition invalid_copy :: plan where
  "invalid_copy = plan1\<lparr>name := [], monthlyPrice := Num (- 5)\<rparr>"

definition two_features :: plan where
  "two_features = plan1\<lparr>features := [[0x41], [0x42]]\<rparr>"

section \<open>Properties\<close>

subsection \<open>Helper lemmas\<close>

lemma id'_plan1: "id' plan1 = 1"
  by (simp add: plan1_def)

lemma id'_plan2: "id' plan2 = 2"
  by (simp add: plan2_def)

lemma id'_plan3: "id' plan3 = 3"
  by (simp add: plan3_def)

lemma isActive_plan1: "isActive plan1"
  by (simp add: plan1_def)

text \<open>With a session open the callback of \<open>handleSavePlan\<close> never throws.\<close>

lemma array_map_open:
  "array_map (save_callback (Some e)) ps = Inr (map (\<lambda>p. if id' p = id' e then e else p) ps)"
  by (induction ps) (simp_all add: save_callback_def)

text \<open>With no session it throws at the first plan, if there is one.\<close>

lemma array_map_null:
  "array_map (save_callback None) ps = (if ps = [] then Inr [] else Inl TypeError)"
  by (cases ps) (simp_all add: save_callback_def)

lemma handleSavePlan_open:
  "editingPlan s = Some e \<Longrightarrow>
   handleSavePlan s =
     Inr (s\<lparr>plans := map (\<lambda>p. if id' p = id' e then e else p) (plans s), editingPlan := None\<rparr>)"
  by (simp add: handleSavePlan_def array_map_open)

text \<open>Saving and toggling keep the identifier at every position of the registry.\<close>

lemma save_map_ids:
  "map id' (map (\<lambda>p. if id' p = id' e then e else p) ps) = map id' ps"
  by (induction ps) simp_all

lemma toggle_map_ids:
  "map id' (map (\<lambda>p. if id' p = i then p\<lparr>isActive := \<not> isActive p\<rparr> else p) ps) = map id' ps"
  by (induction ps) simp_all

lemma toggle_twice_map:
  "map (\<lambda>p. if id' p = i then p\<lparr>isActive := \<not> isActive p\<rparr> else p)
     (map (\<lambda>p. if id' p = i then p\<lparr>isActive := \<not> isActive p\<rparr> else p) ps) = ps"
  by (induction ps) simp_all

lemma handleTogglePlan_twice: "handleTogglePlan i (handleTogglePlan i s) = s"
  by (simp add: handleTogglePlan_def toggle_twice_map del: map_map)

lemma filter_absent_id:
  "i \<notin> id' ` set ps \<Longrightarrow> filter (\<lambda>p. id' p \<noteq> i) ps = ps"
  by (induction ps) auto

text \<open>An index outside the range that the filter walks through removes nothing.\<close>

lemma array_filter_out_of_range:
  "i < int k \<or> int (k + length xs) \<le> i \<Longrightarrow>
   array_filter (\<lambda>_ index. int index \<noteq> i) k xs = xs"
  by (induction xs arbitrary: k) auto

text \<open>An index inside the range removes the feature at that index and no other.\<close>

lemma array_filter_in_range:
  "n < length xs \<Longrightarrow>
   array_filter (\<lambda>_ index. int index \<noteq> int (k + n)) k xs = take n xs @ drop (Suc n) xs"
proof (induction xs arbitrary: k n)
  case Nil
  then show ?case by simp
next
  case (Cons x xs)
  show ?case
  proof (cases n)
    case 0
    then show ?thesis
      using array_filter_out_of_range [of "int k" "Suc k" xs] by simp
  next
    case (Suc m)
    with Cons.prems have "m < length xs" by simp
    from Cons.IH [OF this, of "Suc k"] Suc show ?thesis by simp
  qed
qed

text \<open>Every event keeps the identifiers of the registry pairwise distinct.\<close>

lemma dispatch_distinct:
  assumes "distinct (map id' (plans s))"
  shows "distinct (map id' (plans (dispatch s ev)))"
proof (cases ev)
  case SavePlan
  show ?thesis
  proof (cases "editingPlan s")
    case None
    then show ?thesis using assms SavePlan
      by (simp add: dispatch_def handleSavePlan_def array_map_null)
  next
    case (Some e)
    then show ?thesis using assms SavePlan
      by (simp add: dispatch_def handleSavePlan_open save_map_ids del: map_map)
  qed
next
  case (DeletePlan c i)
  then show ?thesis using assms
    by (simp add: dispatch_def handleDeletePlan_def distinct_map_filter)
next
  case (TogglePlan i)
  then show ?thesis using assms
    by (simp add: dispatch_def handleTogglePlan_def toggle_map_ids del: map_map)
next
  case (AddFeature i f)
  then show ?thesis using assms
    by (simp add: dispatch_def addFeature_def split: option.splits)
next
  case (RemoveFeature i k)
  then show ?thesis using assms
    by (simp add: dispatch_def removeFeature_def split: option.splits)
qed (use assms in \<open>simp_all add: dispatch_def handleEditPlan_def handleCancelEdit_def\<close>)

lemma run_distinct:
  "distinct (map id' (plans s)) \<Longrightarrow> distinct (map id' (plans (run s evs)))"
  by (induction evs arbitrary: s) (simp_all add: dispatch_distinct)

subsection \<open>Committing an edit\<close>

text \<open>
  Claim C1. For every registry and every open edit session with working copy \<open>e\<close>,
  \<open>handleSavePlan\<close> returns normally; the registry keeps its length and order, each entry
  whose identifier is that of \<open>e\<close> becomes \<open>e\<close>, every other entry stays as it was, the
  session is closed, and \<open>handleCancelEdit\<close> then changes nothing.
\<close>

theorem commitEdit_replaces_entry:
  assumes "editingPlan s = Some e"
  shows "\<exists>s'. handleSavePlan s = Inr s' \<and>
           length (plans s') = length (plans s) \<and>
           (\<forall>k < length (plans s).
              plans s' ! k = (if id' (plans s ! k) = id' e then e else plans s ! k)) \<and>
           editingPlan s' = None \<and>
           showAddPlan s' = showAddPlan s \<and>
           handleCancelEdit s' = s'"
  using assms by (simp add: handleSavePlan_open handleCancelEdit_def)

theorem commitEdit_replaces_entry_witness:
  "editingPlan (initial_state\<lparr>editingPlan := Some (plan2\<lparr>maxApps := 7\<rparr>)\<rparr>) =
     Some (plan2\<lparr>maxApps := 7\<rparr>) \<and>
   handleSavePlan (initial_state\<lparr>editingPlan := Some (plan2\<lparr>maxApps := 7\<rparr>)\<rparr>) =
     Inr \<lparr> plans = [plan1, plan2\<lparr>maxApps := 7\<rparr>, plan3], editingPlan = None,
           showAddPlan = False \<rparr> \<and>
   (\<exists>s'. handleSavePlan (initial_state\<lparr>editingPlan := Some (plan2\<lparr>maxApps := 7\<rparr>)\<rparr>) = Inr s' \<and>
      plans s' ! 0 = plan1 \<and> plans s' ! 1 = plan2\<lparr>maxApps := 7\<rparr> \<and> plans s' ! 2 = plan3 \<and>
      editingPlan s' = None \<and> handleCancelEdit s' = s')"
  using commitEdit_replaces_entry
    [of "initial_state\<lparr>editingPlan := Some (plan2\<lparr>maxApps := 7\<rparr>)\<rparr>" "plan2\<lparr>maxApps := 7\<rparr>"]
  by (simp add: initial_state_def handleSavePlan_def save_callback_def handleCancelEdit_def
      id'_plan1 id'_plan2 id'_plan3)

subsection \<open>Opening and cancelling an edit\<close>

text \<open>
  Claim C2. For every registry and every plan \<open>p\<close> in it, \<open>handleEditPlan p\<close> opens a session
  on a clone of \<open>p\<close>, and \<open>handleCancelEdit\<close> right after it leaves the whole registry, so
  also the entry of \<open>p\<close>, equal to what it was, with no session open.
\<close>

theorem beginEdit_cancelEdit_restores:
  assumes "p \<in> set (plans s)"
  shows "editingPlan (handleEditPlan p s) = Some p \<and>
         plans (handleCancelEdit (handleEditPlan p s)) = plans s \<and>
         editingPlan (handleCancelEdit (handleEditPlan p s)) = None"
  by (simp add: handleEditPlan_def handleCancelEdit_def)

theorem beginEdit_cancelEdit_restores_witness:
  "plan2 \<in> set (plans initial_state) \<and>
   handleCancelEdit (handleEditPlan plan2 initial_state) = initial_state \<and>
   plans (handleCancelEdit (handleEditPlan plan2 initial_state)) = [plan1, plan2, plan3] \<and>
   editingPlan (handleCancelEdit (handleEditPlan plan2 initial_state)) = None"
  using beginEdit_cancelEdit_restores [of plan2 initial_state]
  by (simp add: initial_state_def handleEditPlan_def handleCancelEdit_def)

subsection \<open>Unique identifiers\<close>

text \<open>
  Claim C3. In every state reached from the initial state of three plans by any sequence
  of calls of \<open>handleEditPlan\<close> (on any plan object), \<open>handleSavePlan\<close>, \<open>handleCancelEdit\<close>,
  \<open>handleDeletePlan\<close> (confirmed or not), \<open>handleTogglePlan\<close>, \<open>addFeature\<close> and
  \<open>removeFeature\<close>, the identifiers of the plans of the registry are pairwise distinct.
\<close>

theorem ids_distinct_reachable:
  "distinct (map id' (plans (run initial_state evs)))"
  by (rule run_distinct) (simp add: initial_state_def id'_plan1 id'_plan2 id'_plan3)

theorem ids_distinct_reachable_witness:
  "map id' (plans (run initial_state
      [DeletePlan True 2, EditPlan plan3, SavePlan, SavePlan, TogglePlan 1])) = [1, 3] \<and>
   distinct (map id' (plans (run initial_state
      [DeletePlan True 2, EditPlan plan3, SavePlan, SavePlan, TogglePlan 1])))"
  using ids_distinct_reachable
    [of "[DeletePlan True 2, EditPlan plan3, SavePlan, SavePlan, TogglePlan 1]"]
  by (simp add: initial_state_def dispatch_def handleDeletePlan_def handleEditPlan_def
      handleSavePlan_def save_callback_def handleTogglePlan_def id'_plan1 id'_plan2 id'_plan3)

subsection \<open>Committing a working copy with invalid fields\<close>

text \<open>
  Claim C4 says that committing a working copy with invalid fields fails with a
  validation error and leaves the registry and the session as they were. The source has
  no validation: with the empty name and the monthly price \<open>-5\<close>, \<open>handleSavePlan\<close>
  returns normally, writes the working copy into the registry and closes the session.
\<close>

theorem commitEdit_validation_counterexample:
  "name invalid_copy = [] \<and> monthlyPrice invalid_copy = Num (- 5) \<and>
   editingPlan (initial_state\<lparr>editingPlan := Some invalid_copy\<rparr>) = Some invalid_copy \<and>
   handleSavePlan (initial_state\<lparr>editingPlan := Some invalid_copy\<rparr>) =
     Inr \<lparr> plans = [invalid_copy, plan2, plan3], editingPlan = None, showAddPlan = False \<rparr> \<and>
   [invalid_copy, plan2, plan3] \<noteq> plans (initial_state\<lparr>editingPlan := Some invalid_copy\<rparr>)"
  by (simp add: initial_state_def invalid_copy_def handleSavePlan_def save_callback_def
      id'_plan1 id'_plan2 id'_plan3) (simp add: plan1_def)

text \<open>
  Claim C4, amended. For every open edit session whose working copy has an empty name or
  a negative monthly price, \<open>handleSavePlan\<close> raises no error: it replaces each registry
  entry that has the identifier of the working copy by the working copy and closes the
  session.
\<close>

theorem commitEdit_no_validation:
  assumes "editingPlan s = Some e"
    and "name e = [] \<or> (\<exists>x. monthlyPrice e = Num x \<and> x < 0)"
  shows "handleSavePlan s =
           Inr (s\<lparr>plans := map (\<lambda>p. if id' p = id' e then e else p) (plans s),
                  editingPlan := None\<rparr>)"
  using assms(1) by (rule handleSavePlan_open)

theorem commitEdit_no_validation_witness:
  "editingPlan (initial_state\<lparr>editingPlan := Some invalid_copy\<rparr>) = Some invalid_copy \<and>
   name invalid_copy = [] \<and> (\<exists>x. monthlyPrice invalid_copy = Num x \<and> x < 0) \<and>
   handleSavePlan (initial_state\<lparr>editingPlan := Some invalid_copy\<rparr>) =
     Inr \<lparr> plans = [invalid_copy, plan2, plan3], editingPlan = None, showAddPlan = False \<rparr>"
  using commitEdit_no_validation [of "initial_state\<lparr>editingPlan := Some invalid_copy\<rparr>" invalid_copy]
  by (simp add: initial_state_def invalid_copy_def id'_plan1 id'_plan2 id'_plan3)

subsection \<open>Removing a feature at an index out of bounds\<close>

text \<open>
  Claim C5 says that \<open>removeFeature\<close> with an index out of bounds fails with an index
  error. The source compares the index with every position and removes nothing: with the
  features \<open>["A", "B"]\<close> and the index 5 the call returns normally and the state is as
  before.
\<close>

theorem removeFeature_out_of_bounds_counterexample:
  "editingPlan (registry_one\<lparr>editingPlan := Some two_features\<rparr>) = Some two_features \<and>
   id' two_features = 1 \<and> features two_features = [[0x41], [0x42]] \<and>
   step (RemoveFeature 1 5) (registry_one\<lparr>editingPlan := Some two_features\<rparr>) =
     Inr (registry_one\<lparr>editingPlan := Some two_features\<rparr>) \<and>
   (\<nexists>err. step (RemoveFeature 1 5) (registry_one\<lparr>editingPlan := Some two_features\<rparr>) = Inl err)"
  by (simp add: registry_one_def two_features_def removeFeature_def id'_plan1)

text \<open>
  Claim C5, amended. For every open edit session with working copy \<open>e\<close> and every index
  \<open>i\<close> with \<open>i < 0\<close> or \<open>i \<ge> length (features e)\<close>, \<open>removeFeature\<close> on the plan of the session
  raises no error and changes nothing: the state, and so the feature list of the working
  copy, is as before.
\<close>

theorem removeFeature_out_of_bounds_noop:
  assumes "editingPlan s = Some e"
    and "i < 0 \<or> int (length (features e)) \<le> i"
  shows "step (RemoveFeature (id' e) i) s = Inr s \<and>
         removeFeature (id' e) i s = s \<and>
         map_option features (editingPlan (removeFeature (id' e) i s)) = Some (features e)"
proof -
  have "array_filter (\<lambda>_ index. int index \<noteq> i) 0 (features e) = features e"
    using assms(2) by (intro array_filter_out_of_range) auto
  with assms(1) have noop: "removeFeature (id' e) i s = s"
    by (simp add: removeFeature_def)
  have "map_option features (editingPlan s) = Some (features e)"
    by (simp add: assms(1))
  then show ?thesis by (simp add: noop)
qed

theorem removeFeature_out_of_bounds_noop_witness:
  "editingPlan (registry_one\<lparr>editingPlan := Some two_features\<rparr>) = Some two_features \<and>
   int (length (features two_features)) \<le> 5 \<and>
   step (RemoveFeature (id' two_features) 5) (registry_one\<lparr>editingPlan := Some two_features\<rparr>) =
     Inr (registry_one\<lparr>editingPlan := Some two_features\<rparr>)"
proof -
  have a: "editingPlan (registry_one\<lparr>editingPlan := Some two_features\<rparr>) = Some two_features"
    by simp
  have b: "int (length (features two_features)) \<le> 5"
    by (simp add: two_features_def)
  from b have c: "5 < 0 \<or> int (length (features two_features)) \<le> 5" ..
  from removeFeature_out_of_bounds_noop [OF a c] a b show ?thesis by blast
qed

subsection \<open>Opening an edit on a plan that is not in the registry\<close>

text \<open>
  Claim C6 says that opening an edit on an identifier that is not in the registry fails
  with a not-found error. \<open>handleEditPlan\<close> takes the plan object and looks nothing up:
  with the registry holding only plan 1, the call on plan 2 returns normally and opens a
  session on plan 2.
\<close>

theorem beginEdit_absent_counterexample:
  "plans registry_one = [plan1] \<and> id' plan1 = 1 \<and> id' plan2 = 2 \<and>
   2 \<notin> id' ` set (plans registry_one) \<and>
   step (EditPlan plan2) registry_one = Inr (registry_one\<lparr>editingPlan := Some plan2\<rparr>) \<and>
   (\<nexists>err. step (EditPlan plan2) registry_one = Inl err)"
  by (simp add: registry_one_def handleEditPlan_def id'_plan1 id'_plan2)

text \<open>
  Claim C6, amended. For every registry and every plan object, in the registry or not,
  \<open>handleEditPlan\<close> raises no error, leaves the registry unchanged and opens an edit session
  holding a clone of the fields of that plan, in place of any session open before.
\<close>

theorem beginEdit_opens_session:
  "step (EditPlan p) s = Inr (handleEditPlan p s) \<and>
   plans (handleEditPlan p s) = plans s \<and>
   editingPlan (handleEditPlan p s) = Some p \<and>
   showAddPlan (handleEditPlan p s) = showAddPlan s"
  by (simp add: handleEditPlan_def)

theorem beginEdit_opens_session_witness:
  "editingPlan (handleEditPlan plan3 (initial_state\<lparr>editingPlan := Some plan1\<rparr>)) = Some plan3 \<and>
   plans (handleEditPlan plan3 (initial_state\<lparr>editingPlan := Some plan1\<rparr>)) = [plan1, plan2, plan3]"
proof -
  have "plans (initial_state\<lparr>editingPlan := Some plan1\<rparr>) = [plan1, plan2, plan3]"
    by (simp add: initial_state_def)
  with beginEdit_opens_session [of plan3 "initial_state\<lparr>editingPlan := Some plan1\<rparr>"]
  show ?thesis by simp
qed

subsection \<open>Toggling twice\<close>

text \<open>
  Claim C7. For every registry and every plan \<open>p\<close> in it, one call of \<open>handleTogglePlan\<close> on
  the identifier of \<open>p\<close> puts \<open>p\<close> with its \<open>isActive\<close> flag negated into the registry, and
  a second call gives back the state before the two calls, so \<open>p\<close> with its first flag.
\<close>

theorem toggleActive_twice:
  assumes "p \<in> set (plans s)"
  shows "handleTogglePlan (id' p) (handleTogglePlan (id' p) s) = s \<and>
         (p\<lparr>isActive := \<not> isActive p\<rparr>) \<in> set (plans (handleTogglePlan (id' p) s)) \<and>
         p \<in> set (plans (handleTogglePlan (id' p) (handleTogglePlan (id' p) s)))"
proof -
  have twice: "handleTogglePlan (id' p) (handleTogglePlan (id' p) s) = s"
    by (rule handleTogglePlan_twice)
  have "(\<lambda>q. if id' q = id' p then q\<lparr>isActive := \<not> isActive q\<rparr> else q) p
          \<in> set (map (\<lambda>q. if id' q = id' p then q\<lparr>isActive := \<not> isActive q\<rparr> else q) (plans s))"
    using assms by (simp only: set_map) (rule imageI)
  then have once: "(p\<lparr>isActive := \<not> isActive p\<rparr>) \<in> set (plans (handleTogglePlan (id' p) s))"
    by (simp add: handleTogglePlan_def)
  from twice once assms show ?thesis by simp
qed

theorem toggleActive_twice_witness:
  "plan1 \<in> set (plans registry_one) \<and>
   plans (handleTogglePlan 1 registry_one) = [plan1\<lparr>isActive := False\<rparr>] \<and>
   plans (handleTogglePlan 1 (handleTogglePlan 1 registry_one)) = [plan1] \<and>
   handleTogglePlan 1 (handleTogglePlan 1 registry_one) = registry_one"
proof -
  have a: "plan1 \<in> set (plans registry_one)"
    by (simp add: registry_one_def)
  have b: "plans (handleTogglePlan 1 registry_one) = [plan1\<lparr>isActive := False\<rparr>]"
    by (simp add: registry_one_def handleTogglePlan_def id'_plan1 isActive_plan1)
  have c: "plans registry_one = [plan1]"
    by (simp add: registry_one_def)
  from toggleActive_twice [OF a]
  have "handleTogglePlan 1 (handleTogglePlan 1 registry_one) = registry_one"
    by (simp add: id'_plan1)
  with a b c show ?thesis by simp
qed

subsection \<open>Deleting an identifier that is not in the registry\<close>

text \<open>
  Claim C8. For every registry and every identifier that no plan of it has,
  \<open>handleDeletePlan\<close> changes neither the size nor the contents of the registry, whether
  the user confirms or not.
\<close>

theorem delete_absent_id:
  assumes "i \<notin> id' ` set (plans s)"
  shows "handleDeletePlan confirmed i s = s \<and>
         plans (handleDeletePlan confirmed i s) = plans s \<and>
         length (plans (handleDeletePlan confirmed i s)) = length (plans s)"
  using assms by (simp add: handleDeletePlan_def filter_absent_id)

theorem delete_absent_id_witness:
  "2 \<notin> id' ` set (plans registry_one) \<and> handleDeletePlan True 2 registry_one = registry_one"
proof -
  have a: "2 \<notin> id' ` set (plans registry_one)"
    by (simp add: registry_one_def id'_plan1)
  from delete_absent_id [OF a, of True] a show ?thesis by blast
qed

subsection \<open>Committing with no session open\<close>

text \<open>
  Claim C9 says that \<open>handleSavePlan\<close> throws whenever \<open>editingPlan\<close> is null. On the empty
  registry, which three confirmed deletions reach, the callback that reads
  \<open>editingPlan.id\<close> is never called: the handler returns normally and changes nothing.
\<close>

theorem commitEdit_null_counterexample:
  "run initial_state [DeletePlan True 1, DeletePlan True 2, DeletePlan True 3] = registry_empty \<and>
   editingPlan registry_empty = None \<and>
   handleSavePlan registry_empty = Inr registry_empty \<and>
   handleSavePlan registry_empty \<noteq> Inl TypeError"
  by (simp add: registry_empty_def initial_state_def dispatch_def handleDeletePlan_def
      handleSavePlan_def id'_plan1 id'_plan2 id'_plan3)

text \<open>
  Claim C9, amended. With \<open>editingPlan\<close> null and a registry that is not empty,
  \<open>handleSavePlan\<close> throws a \<open>TypeError\<close> and the state stays as it was; with \<open>editingPlan\<close>
  null and the empty registry it returns normally and changes nothing; with a session
  open it never throws.
\<close>

theorem commitEdit_safety:
  "(editingPlan s = None \<and> plans s \<noteq> [] \<longrightarrow>
      handleSavePlan s = Inl TypeError \<and> dispatch s SavePlan = s) \<and>
   (editingPlan s = None \<and> plans s = [] \<longrightarrow> handleSavePlan s = Inr s) \<and>
   (editingPlan s \<noteq> None \<longrightarrow> (\<exists>s'. handleSavePlan s = Inr s'))"
proof (intro conjI impI)
  assume "editingPlan s = None \<and> plans s \<noteq> []"
  then show "handleSavePlan s = Inl TypeError"
    by (simp add: handleSavePlan_def array_map_null)
  then show "dispatch s SavePlan = s"
    by (simp add: dispatch_def)
next
  assume "editingPlan s = None \<and> plans s = []"
  then show "handleSavePlan s = Inr s"
    by (simp add: handleSavePlan_def)
next
  assume "editingPlan s \<noteq> None"
  then obtain e where "editingPlan s = Some e" by blast
  then show "\<exists>s'. handleSavePlan s = Inr s'"
    by (simp add: handleSavePlan_open)
qed

theorem commitEdit_safety_witness:
  "editingPlan initial_state = None \<and> plans initial_state \<noteq> [] \<and>
   handleSavePlan initial_state = Inl TypeError \<and> dispatch initial_state SavePlan = initial_state \<and>
   editingPlan registry_empty = None \<and> plans registry_empty = [] \<and>
   handleSavePlan registry_empty = Inr registry_empty \<and>
   editingPlan (initial_state\<lparr>editingPlan := Some plan1\<rparr>) \<noteq> None \<and>
   (\<exists>s'. handleSavePlan (initial_state\<lparr>editingPlan := Some plan1\<rparr>) = Inr s')"
proof -
  have a: "editingPlan initial_state = None \<and> plans initial_state \<noteq> []"
    by (simp add: initial_state_def)
  have b: "editingPlan registry_empty = None \<and> plans registry_empty = []"
    by (simp add: registry_empty_def)
  have c: "editingPlan (initial_state\<lparr>editingPlan := Some plan1\<rparr>) \<noteq> None"
    by simp
  from commitEdit_safety [of initial_state] commitEdit_safety [of registry_empty]
    commitEdit_safety [of "initial_state\<lparr>editingPlan := Some plan1\<rparr>"] a b c
  show ?thesis by blast
qed

subsection \<open>What toggling leaves alone\<close>

text \<open>
  Claim C10. For every registry and every identifier \<open>i\<close>, \<open>handleTogglePlan i\<close> keeps the
  length of the registry and the identifier at every position (so the order); every plan
  keeps all its fields but \<open>isActive\<close>; every plan whose identifier is not \<open>i\<close> stays as it
  was; and the working copy of the edit session and \<open>showAddPlan\<close> stay as they were.
\<close>

theorem toggleActive_frame:
  "length (plans (handleTogglePlan i s)) = length (plans s) \<and>
   map id' (plans (handleTogglePlan i s)) = map id' (plans s) \<and>
   (\<forall>k < length (plans s).
      (plans (handleTogglePlan i s) ! k)\<lparr>isActive := isActive (plans s ! k)\<rparr> = plans s ! k \<and>
      (id' (plans s ! k) \<noteq> i \<longrightarrow> plans (handleTogglePlan i s) ! k = plans s ! k)) \<and>
   editingPlan (handleTogglePlan i s) = editingPlan s \<and>
   showAddPlan (handleTogglePlan i s) = showAddPlan s"
  by (simp add: handleTogglePlan_def comp_def)

theorem toggleActive_frame_witness:
  "plans (handleTogglePlan 2 (initial_state\<lparr>editingPlan := Some plan2\<rparr>)) =
     [plan1, plan2\<lparr>isActive := False\<rparr>, plan3] \<and>
   map id' (plans (handleTogglePlan 2 (initial_state\<lparr>editingPlan := Some plan2\<rparr>))) = [1, 2, 3] \<and>
   editingPlan (handleTogglePlan 2 (initial_state\<lparr>editingPlan := Some plan2\<rparr>)) = Some plan2"
proof -
  have a: "plans (handleTogglePlan 2 (initial_state\<lparr>editingPlan := Some plan2\<rparr>)) =
     [plan1, plan2\<lparr>isActive := False\<rparr>, plan3]"
    by (simp add: initial_state_def handleTogglePlan_def id'_plan1 id'_plan2 id'_plan3)
      (simp add: plan2_def)
  have b: "map id' (plans (initial_state\<lparr>editingPlan := Some plan2\<rparr>)) = [1, 2, 3]"
    by (simp add: initial_state_def id'_plan1 id'_plan2 id'_plan3)
  from toggleActive_frame [of 2 "initial_state\<lparr>editingPlan := Some plan2\<rparr>"] a b
  show ?thesis by simp
qed

end
